theory Spec2Isabelle
  imports Complex_Main
begin

section \<open>The data supplied by the host (types.js)\<close>

text \<open>
  JavaScript numbers are modelled by the rationals: every finite double is one, and the
  constants of the pager (1.75, 320, 1200) are exact. A division by zero gives \<open>NaN\<close> or
  an infinity in JavaScript; the model reports it as \<open>None\<close> (see \<open>divide_js\<close>).
\<close>

record Route =
  key :: string

record NavigationState =
  nav_index :: rat
  routes :: "Route list"

record Layout =
  width :: rat
  height :: rat

record Props =
  swipeEnabled :: bool
  navigationState :: NavigationState
  layout :: Layout

section \<open>The state of a Pager instance (Pager.js)\<close>

text \<open>
  One field per animated value of the class, named as in the source without the leading
  underscore. \<open>clock\<close> is \<open>clockRunning(this._clock)\<close>. The three fields
  \<open>state_time\<close>, \<open>state_finished\<close> and \<open>config_toValue\<close> are the values that
  \<open>transitionTo\<close> allocates (it is called once, when the graph is built);
  \<open>prevValue\<close> is the value that \<open>onChange\<close> allocates, undefined until the first
  evaluation. \<open>jumpTo_calls\<close> records, in order, the keys \<open>props.jumpTo\<close> was called with.
\<close>

record Pager =
  props :: Props
  velocityX :: rat
  gestureX :: rat
  gestureState :: int
  offsetX :: rat
  position :: rat
  index :: rat
  nextIndex :: rat
  isSwiping :: bool
  isSwipeGesture :: bool
  clock :: bool
  routesLength :: nat
  layoutWidth :: rat
  state_time :: rat
  state_finished :: bool
  config_toValue :: rat
  prevValue :: "rat option"
  jumpTo_calls :: "string list"

text \<open>The field initialisers of the class, in the order of the source.\<close>

definition init :: "Props \<Rightarrow> Pager" where
  "init p =
     \<lparr> props = p,
       velocityX = 0,
       gestureX = 0,
       gestureState = - 1,
       offsetX = 0,
       position = - nav_index (navigationState p) * width (layout p),
       index = nav_index (navigationState p),
       nextIndex = nav_index (navigationState p),
       isSwiping = False,
       isSwipeGesture = False,
       clock = False,
       routesLength = length (routes (navigationState p)),
       layoutWidth = (if width (layout p) \<noteq> 0 then width (layout p) else 320),
       state_time = 0,
       state_finished = False,
       config_toValue = 0,
       prevValue = None,
       jumpTo_calls = [] \<rparr>"

section \<open>The swipe decision (the argument of transitionTo in translateX)\<close>

definition State_ACTIVE :: int where
  "State_ACTIVE = 4"

definition swipeDistanceThreshold :: "Pager \<Rightarrow> rat" where
  "swipeDistanceThreshold s = layoutWidth s / 1.75"

definition swipeVelocityThreshold :: rat where
  "swipeVelocityThreshold = 1200"

text \<open>\<open>divide(a, b)\<close>: \<open>None\<close> when the denominator is zero.\<close>

definition divide_js :: "rat \<Rightarrow> rat \<Rightarrow> rat option" where
  "divide_js a b = (if b = 0 then None else Some (a / b))"

text \<open>\<open>Math.round\<close>: the nearest integer, a half rounded up.\<close>

definition round_js :: "rat \<Rightarrow> int" where
  "round_js x = \<lfloor>x + 1 / 2\<rfloor>"

text \<open>
  The outer condition of the decision, \<open>or(greaterThan(abs(gestureX), threshold),
  greaterThan(abs(velocityX), 1200))\<close>.
\<close>

definition is_swipe :: "Pager \<Rightarrow> bool" where
  "is_swipe s \<longleftrightarrow>
     \<bar>gestureX s\<bar> > swipeDistanceThreshold s \<or> \<bar>velocityX s\<bar> > swipeVelocityThreshold"

text \<open>
  The inner \<open>cond\<close>: the direction from the distance when it exceeds the threshold, from
  the velocity otherwise. Only the branch taken is evaluated.
\<close>

definition direction :: "Pager \<Rightarrow> rat option" where
  "direction s =
     (if \<bar>gestureX s\<bar> > swipeDistanceThreshold s
      then divide_js (gestureX s) \<bar>gestureX s\<bar>
      else divide_js (velocityX s) \<bar>velocityX s\<bar>)"

text \<open>The whole node: \<open>round(min(max(0, index - direction), routesLength - 1))\<close> or \<open>index\<close>.\<close>

definition next_index :: "Pager \<Rightarrow> rat option" where
  "next_index s =
     (if is_swipe s
      then (case direction s of
              None \<Rightarrow> None
            | Some d \<Rightarrow>
                Some (of_int (round_js (min (max 0 (index s - d)) (of_nat (routesLength s) - 1)))))
      else Some (index s))"

section \<open>The animation graph\<close>

text \<open>
  What can go wrong in an evaluation: \<open>TypeError\<close> is raised by \<open>route.key\<close> when
  \<open>routes[Math.round(value)]\<close> is undefined; \<open>NotANumber\<close> marks an evaluation whose
  index node divided by zero, which leaves the numbers of this model.
\<close>

datatype error = TypeError | NotANumber

text \<open>
  The spring node belongs to the animation library. It reads the clock, the target and
  the four values of \<open>state\<close>, and writes the four values back; the graph is modelled for
  an arbitrary such function.
\<close>

record SpringState =
  sp_position :: rat
  sp_velocity :: rat
  sp_time :: rat
  sp_finished :: bool

type_synonym spring = "rat \<Rightarrow> rat \<Rightarrow> SpringState \<Rightarrow> SpringState"

text \<open>
  The callback of \<open>call([this._index], ...)\<close>: the route at the rounded index, read from
  the current props, and \<open>jumpTo\<close> of its key. An index outside the array gives
  \<open>undefined\<close>, and reading \<open>key\<close> of it raises.
\<close>

definition call_jumpTo :: "Pager \<Rightarrow> error + Pager" where
  "call_jumpTo s =
     (let rs = routes (navigationState (props s)); k = round_js (index s)
      in if 0 \<le> k \<and> k < int (length rs)
         then Inr (s\<lparr>jumpTo_calls := jumpTo_calls s @ [key (rs ! nat k)]\<rparr>)
         else Inl TypeError)"

text \<open>
  \<open>transitionTo(index)\<close>, for the node \<open>index\<close> given as a function of the state: the
  start of the animation when the clock is not running, one step of the spring, and the
  end of the animation when the spring has finished.
\<close>

definition transitionTo :: "spring \<Rightarrow> rat \<Rightarrow> (Pager \<Rightarrow> rat option) \<Rightarrow> Pager \<Rightarrow> error + Pager" where
  "transitionTo sp now index_node s =
     (case (if clock s then Some s
            else (case index_node s of
                    None \<Rightarrow> None
                  | Some i \<Rightarrow>
                      Some (s\<lparr>config_toValue := i * layoutWidth s * (- 1),
                              state_finished := False,
                              state_time := 0,
                              index := i,
                              clock := True\<rparr>))) of
        None \<Rightarrow> Inl NotANumber
      | Some s1 \<Rightarrow>
          (let r = sp now (config_toValue s1)
                     \<lparr>sp_position = position s1, sp_velocity = velocityX s1,
                      sp_time = state_time s1, sp_finished = state_finished s1\<rparr>;
               s2 = s1\<lparr>position := sp_position r, velocityX := sp_velocity r,
                        state_time := sp_time r, state_finished := sp_finished r\<rparr>
           in if state_finished s2
              then call_jumpTo (s2\<lparr>clock := False, gestureX := 0, velocityX := 0\<rparr>)
              else Inr s2))"

text \<open>
  \<open>onChange(this._nextIndex, ...)\<close>: the library's node remembers the last value seen
  (nothing at first) and runs the action when the value differs from it.
\<close>

definition onChange_nextIndex :: "Pager \<Rightarrow> Pager" where
  "onChange_nextIndex s =
     (case prevValue s of
        None \<Rightarrow> s\<lparr>prevValue := Some (nextIndex s)\<rparr>
      | Some pv \<Rightarrow>
          if nextIndex s \<noteq> pv
          then (let s1 = s\<lparr>prevValue := Some (nextIndex s)\<rparr>
                in if index s1 = nextIndex s1 \<or> isSwipeGesture s1 then s1
                   else s1\<lparr>clock := False, index := nextIndex s1\<rparr>)
          else s)"

text \<open>
  One evaluation of the block \<open>translateX\<close>. Its value is \<open>position\<close> of the state
  returned.
\<close>

definition translateX :: "spring \<Rightarrow> rat \<Rightarrow> Pager \<Rightarrow> error + Pager" where
  "translateX sp now s0 =
     (let s = onChange_nextIndex s0
      in if gestureState s = State_ACTIVE
         then (let s1 = (if isSwiping s then s
                         else s\<lparr>isSwiping := True, isSwipeGesture := True,
                                offsetX := position s\<rparr>);
                   s2 = s1\<lparr>position := offsetX s1 + gestureX s1\<rparr>
               in Inr (s2\<lparr>clock := False\<rparr>))
         else transitionTo sp now next_index (s\<lparr>isSwiping := False\<rparr>))"

text \<open>\<open>handleGestureEvent\<close>: the three values of the native event are stored.\<close>

definition handleGestureEvent :: "rat \<Rightarrow> rat \<Rightarrow> int \<Rightarrow> Pager \<Rightarrow> Pager" where
  "handleGestureEvent translationX vX st s =
     s\<lparr>gestureX := translationX, velocityX := vX, gestureState := st\<rparr>"

text \<open>\<open>componentDidUpdate(prevProps)\<close>, with the new props already in \<open>props s\<close>.\<close>

definition componentDidUpdate :: "Props \<Rightarrow> Pager \<Rightarrow> Pager" where
  "componentDidUpdate prevProps s =
     (let i = nav_index (navigationState (props s));
          n = length (routes (navigationState (props s)));
          w = width (layout (props s));
          s1 = (if i \<noteq> nav_index (navigationState prevProps)
                then s\<lparr>isSwipeGesture := False, nextIndex := i\<rparr> else s);
          s2 = (if length (routes (navigationState prevProps)) \<noteq> n
                then s1\<lparr>routesLength := n\<rparr> else s1);
          s3 = (if width (layout prevProps) \<noteq> w
                then s2\<lparr>layoutWidth := w\<rparr> else s2)
      in s3)"

section \<open>What drives the graph\<close>

text \<open>
  The graph is evaluated once for each frame while the clock is running (\<open>Tick\<close>), for
  each sample of the gesture recogniser (\<open>Gesture\<close>, with translation, velocity and
  state), and after each update of the component (\<open>Update\<close>, which runs
  \<open>componentDidUpdate\<close> first). Every event carries the time of its frame. An update with
  unchanged props is a plain re-render.
\<close>

datatype event = Tick rat | Gesture rat rat rat int | Update rat Props

fun step :: "spring \<Rightarrow> event \<Rightarrow> Pager \<Rightarrow> error + Pager" where
  "step sp (Tick now) s = (if clock s then translateX sp now s else Inr s)"
| "step sp (Gesture now translationX vX st) s =
     translateX sp now (handleGestureEvent translationX vX st s)"
| "step sp (Update now p) s = translateX sp now (componentDidUpdate (props s) (s\<lparr>props := p\<rparr>))"

fun run :: "spring \<Rightarrow> event list \<Rightarrow> Pager \<Rightarrow> error + Pager" where
  "run sp [] s = Inr s"
| "run sp (e # es) s = (case step sp e s of Inl err \<Rightarrow> Inl err | Inr s' \<Rightarrow> run sp es s')"



section \<open>Example inputs\<close>

definition three_routes :: "Route list" where
  "three_routes = [\<lparr>key = ''first''\<rparr>, \<lparr>key = ''second''\<rparr>, \<lparr>key = ''third''\<rparr>]"

definition example_props :: Props where
  "example_props =
     \<lparr> swipeEnabled = True,
       navigationState = \<lparr>nav_index = 0, routes = three_routes\<rparr>,
       layout = \<lparr>width = 350, height = 600\<rparr> \<rparr>"

text \<open>
  A stand-in for the library's spring, for running examples: the position moves towards
  the target by at most 100 a frame, which at 60 frames a second is a velocity of 6000,
  and the spring has finished when it arrives.
\<close>

definition linear_spring :: spring where
  "linear_spring now target st =
     (if \<bar>target - sp_position st\<bar> \<le> 100
      then \<lparr>sp_position = target, sp_velocity = 0, sp_time = now, sp_finished = True\<rparr>
      else \<lparr>sp_position = sp_position st + 100 * sgn (target - sp_position st),
            sp_velocity = 6000 * sgn (target - sp_position st),
            sp_time = now, sp_finished = sp_finished st\<rparr>)"

text \<open>A field of the state a run ends in; nothing when the run raised.\<close>

definition final :: "(Pager \<Rightarrow> 'a) \<Rightarrow> error + Pager \<Rightarrow> 'a option" where
  "final f r = (case r of Inl e \<Rightarrow> None | Inr s \<Rightarrow> Some (f s))"

text \<open>The props with another index, as an update of the navigation state supplies them.\<close>

definition with_index :: "rat \<Rightarrow> Props \<Rightarrow> Props" where
  "with_index i p = p\<lparr>navigationState := (navigationState p)\<lparr>nav_index := i\<rparr>\<rparr>"

text \<open>States at the moment of a release, for the examples of the swipe decision.\<close>

definition short_drag :: Pager where
  "short_drag = (init example_props)\<lparr>gestureX := - 199, velocityX := 0\<rparr>"

definition long_drag :: Pager where
  "long_drag = (init example_props)\<lparr>gestureX := - 201, velocityX := 0\<rparr>"

definition long_drag_at_end :: Pager where
  "long_drag_at_end = (init example_props)\<lparr>gestureX := - 201, velocityX := 0, index := 2\<rparr>"

definition fling :: Pager where
  "fling = (init example_props)\<lparr>gestureX := - 50, velocityX := - 1300\<rparr>"

definition boundary_release :: Pager where
  "boundary_release = (init example_props)\<lparr>gestureX := 200, velocityX := - 1300, index := 1\<rparr>"

text \<open>Props of a pager that has not been laid out yet.\<close>

definition no_layout_props :: Props where
  "no_layout_props =
     \<lparr> swipeEnabled = True,
       navigationState = \<lparr>nav_index = 2, routes = three_routes\<rparr>,
       layout = \<lparr>width = 0, height = 0\<rparr> \<rparr>"

section \<open>Predicates used in the statements\<close>




section \<open>Example runs\<close>

text \<open>
  The gesture recogniser reports the state 5 (\<open>State.END\<close>) when the finger is lifted.
\<close>

definition State_END :: int where
  "State_END = 5"

text \<open>
  A drag and what follows it: samples of the active gesture (time, translation,
  velocity), the sample of the release, and the frames after it.
\<close>

definition drag_then_settle ::
  "(rat \<times> rat \<times> rat) list \<Rightarrow> rat \<Rightarrow> rat \<Rightarrow> rat \<Rightarrow> int \<Rightarrow> rat list \<Rightarrow> event list" where
  "drag_then_settle samples now x v st frames =
     map (\<lambda>(t, x, v). Gesture t x v State_ACTIVE) samples
     @ Gesture now x v st # map Tick frames"

text \<open>
  A swipe from the first page to the second; the recogniser reports the state 2
  (\<open>State.BEGAN\<close>) when the finger touches the screen.
\<close>

definition swipe_events :: "event list" where
  "swipe_events =
     drag_then_settle [(1, - 100, - 300), (2, - 201, - 200)] 3 (- 201) 0 State_END [4, 5, 6]"

definition State_BEGAN :: int where
  "State_BEGAN = 2"

text \<open>A drag that stays under the threshold, and its release.\<close>

definition short_drag_active :: Pager where
  "short_drag_active =
     projr (run linear_spring [Gesture 1 (- 199) 0 State_ACTIVE] (init example_props))"

definition snapped_back :: Pager where
  "snapped_back = projr (step linear_spring (Gesture 2 (- 199) 0 State_END) short_drag_active)"

text \<open>A drag during which the host changes the index, and the release after it.\<close>

definition mid_drag :: Pager where
  "mid_drag = projr (run linear_spring [Gesture 1 (- 100) (- 300) State_ACTIVE] (init example_props))"

definition overridden :: Pager where
  "overridden = projr (step linear_spring (Update 2 (with_index 2 example_props)) mid_drag)"

definition released :: Pager where
  "released = projr (step linear_spring (Gesture 3 (- 201) 0 State_END) overridden)"

text \<open>The pager after its first evaluation, and after the host has set the third page.\<close>

definition mounted :: Pager where
  "mounted = projr (run linear_spring [Update 0 example_props] (init example_props))"

definition animating :: Pager where
  "animating = projr (step linear_spring (Update 1 (with_index 2 (props mounted))) mounted)"







section \<open>Rounding\<close>

lemma round_js_mono: "x \<le> y \<Longrightarrow> round_js x \<le> round_js y"
  by (simp add: round_js_def floor_mono)

lemma round_js_of_int: "round_js (of_int k) = k"
  unfolding round_js_def by linarith

lemma round_js_numerals:
  "round_js 0 = 0" "round_js 1 = 1" "round_js (numeral n) = numeral n"
  "round_js (- numeral n) = - numeral n"
  using round_js_of_int [of 0] round_js_of_int [of 1] round_js_of_int [of "numeral n"]
    round_js_of_int [of "- numeral n"]
  by simp_all

lemma round_js_of_nat_plus1: "round_js (of_nat k + 1) = int k + 1"
  using round_js_of_int [of "int k + 1"] by simp

lemma round_js_clamp:
  "round_js (min (max 0 x) (of_nat n - 1)) = min (max 0 (round_js x)) (int n - 1)"
proof -
  have m: "mono round_js" by (simp add: mono_def round_js_mono)
  have a: "round_js (of_nat n - 1) = int n - 1"
    using round_js_of_int [of "int n - 1"] by simp
  have b: "round_js 0 = 0"
    using round_js_of_int [of 0] by simp
  show ?thesis
    using min_of_mono [OF m, of "max 0 x" "of_nat n - 1"] max_of_mono [OF m, of 0 x]
    by (simp add: a b)
qed

section \<open>The swipe decision\<close>

lemma direction_is_swipe:
  assumes "is_swipe s" "0 \<le> layoutWidth s"
  shows "direction s =
     Some (if \<bar>gestureX s\<bar> > swipeDistanceThreshold s then sgn (gestureX s) else sgn (velocityX s))"
  using assms
  by (auto simp: direction_def divide_js_def is_swipe_def swipeDistanceThreshold_def
      swipeVelocityThreshold_def sgn_if)

lemma next_index_cong:
  assumes "gestureX a = gestureX b" and "velocityX a = velocityX b" and "index a = index b"
    and "layoutWidth a = layoutWidth b" and "routesLength a = routesLength b"
  shows "next_index a = next_index b"
  unfolding next_index_def is_swipe_def direction_def swipeDistanceThreshold_def
  by (simp only: assms)


section \<open>What one evaluation changes\<close>



lemma onChange_nextIndex_same:
  "prevValue s = Some (nextIndex s) \<Longrightarrow> onChange_nextIndex s = s"
  by (simp add: onChange_nextIndex_def)


lemma call_jumpTo_result:
  assumes "call_jumpTo s = Inr s'"
  shows "s' = s\<lparr>jumpTo_calls :=
                   jumpTo_calls s @ [key (routes (navigationState (props s)) ! nat (round_js (index s)))]\<rparr>"
  using assms by (simp add: call_jumpTo_def Let_def split: if_splits)

lemma transitionTo_result:
  assumes "transitionTo sp now node s = Inr s'"
  shows "props s' = props s \<and> gestureState s' = gestureState s
         \<and> nextIndex s' = nextIndex s \<and> layoutWidth s' = layoutWidth s
         \<and> routesLength s' = routesLength s \<and> isSwiping s' = isSwiping s
         \<and> isSwipeGesture s' = isSwipeGesture s \<and> prevValue s' = prevValue s
         \<and> jumpTo_calls s' =
             jumpTo_calls s @
             (if clock s' then []
              else [key (routes (navigationState (props s')) ! nat (round_js (index s')))])
         \<and> (if clock s then index s' = index s else node s = Some (index s'))"
  using assms
  by (auto simp: transitionTo_def Let_def split: option.splits if_splits
      dest!: call_jumpTo_result)

lemma external_change_mid_drag:
  assumes "gestureState s = State_ACTIVE" and "isSwiping s"
    and "prevValue s = Some (nextIndex s)"
    and "nextIndex s = nav_index (navigationState (props s))"
    and "nav_index (navigationState p) \<noteq> nav_index (navigationState (props s))"
  shows "\<exists>s'. step sp (Update now p) s = Inr s'
           \<and> index s' = nav_index (navigationState p)
           \<and> \<not> isSwipeGesture s' \<and> isSwiping s' \<and> gestureState s' = State_ACTIVE
           \<and> position s' = offsetX s + gestureX s
           \<and> jumpTo_calls s' = jumpTo_calls s
           \<and> \<not> clock s' \<and> prevValue s' = Some (nextIndex s')"
  using assms
  by (simp add: componentDidUpdate_def translateX_def onChange_nextIndex_def Let_def)

lemma release_resolves_from_index:
  assumes "step sp (Gesture now x v st) s = Inr s'"
    and "st \<noteq> State_ACTIVE" and "\<not> clock s" and "prevValue s = Some (nextIndex s)"
  shows "next_index (s\<lparr>gestureX := x, velocityX := v\<rparr>) = Some (index s')"
proof -
  let ?g = "handleGestureEvent x v st s"
  have o: "onChange_nextIndex ?g = ?g"
    using assms(4) by (simp add: onChange_nextIndex_same handleGestureEvent_def)
  have n: "next_index (?g\<lparr>isSwiping := False\<rparr>) = next_index (s\<lparr>gestureX := x, velocityX := v\<rparr>)"
    by (rule next_index_cong) (simp_all add: handleGestureEvent_def)
  have "transitionTo sp now next_index (?g\<lparr>isSwiping := False\<rparr>) = Inr s'"
    using assms(1,2) by (simp add: translateX_def o Let_def) (simp add: handleGestureEvent_def)
  from transitionTo_result [OF this] assms(3) n show ?thesis
    by (simp add: handleGestureEvent_def)
qed

lemma external_change_idle:
  assumes "step sp (Update now (with_index i (props s))) s = Inr s'"
    and "gestureState s \<noteq> State_ACTIVE"
    and "prevValue s = Some (nextIndex s)"
    and "nextIndex s = nav_index (navigationState (props s))"
    and "i \<noteq> nav_index (navigationState (props s))" and "i \<noteq> index s"
    and "\<not> is_swipe s"
  shows "index s' = i \<and> config_toValue s' = i * layoutWidth s * (- 1)
         \<and> position s' =
             sp_position (sp now (i * layoutWidth s * (- 1))
               \<lparr>sp_position = position s, sp_velocity = velocityX s,
                sp_time = 0, sp_finished = False\<rparr>)
         \<and> clock s' =
             (\<not> sp_finished (sp now (i * layoutWidth s * (- 1))
               \<lparr>sp_position = position s, sp_velocity = velocityX s,
                sp_time = 0, sp_finished = False\<rparr>))"
proof -
  define s1 where "s1 = componentDidUpdate (props s) (s\<lparr>props := with_index i (props s)\<rparr>)"
  have s1: "s1 = s\<lparr>props := with_index i (props s), isSwipeGesture := False, nextIndex := i\<rparr>"
    using assms(5) by (simp add: s1_def componentDidUpdate_def with_index_def Let_def)
  have o: "onChange_nextIndex s1 = s1\<lparr>prevValue := Some i, clock := False, index := i\<rparr>"
    using assms(3-6) by (simp add: s1 onChange_nextIndex_def Let_def)
  have n: "next_index (s1\<lparr>prevValue := Some i, clock := False, index := i, isSwiping := False\<rparr>)
           = Some i"
    using assms(7) by (simp add: s1 next_index_def is_swipe_def swipeDistanceThreshold_def)
  have t: "translateX sp now s1 = Inr s'"
    using assms(1) by (simp add: s1_def)
  then show ?thesis
    using assms(2) n
    apply (simp add: translateX_def o Let_def)
    apply (simp add: s1 transitionTo_def Let_def split: if_splits)
     apply (auto dest!: call_jumpTo_result)
    done
qed

section \<open>Indices inside the routes\<close>














section \<open>The claims\<close>

text \<open>
  C1. A release whose translation is below the distance threshold and whose velocity is
  below the velocity threshold keeps the index: the index node has the value of the
  current index. The threshold is the layout width divided by 1.75, so 200 for a width
  of 350; there a release at -199 with velocity 0 keeps the index, and so does a release
  whose absolute translation is exactly 200, because the comparison is strict. The
  evaluation of such a release after a drag leaves the index of the pager as it was.
\<close>

theorem snap_back:
  "(\<not> swipeDistanceThreshold s \<le> \<bar>gestureX s\<bar> \<and> \<not> swipeVelocityThreshold \<le> \<bar>velocityX s\<bar>
      \<longrightarrow> next_index s = Some (index s))
   \<and> (layoutWidth s = 350 \<longrightarrow> swipeDistanceThreshold s = 200)
   \<and> (layoutWidth s = 350 \<and> velocityX s = 0 \<and> (gestureX s = - 199 \<or> \<bar>gestureX s\<bar> = 200)
      \<longrightarrow> next_index s = Some (index s))
   \<and> (step sp (Gesture now x v st) u = Inr u' \<and> st \<noteq> State_ACTIVE \<and> \<not> clock u
        \<and> prevValue u = Some (nextIndex u)
        \<and> \<bar>x\<bar> \<le> swipeDistanceThreshold u \<and> \<bar>v\<bar> \<le> swipeVelocityThreshold
      \<longrightarrow> index u' = index u)"
proof -
  have "index u' = index u"
    if "step sp (Gesture now x v st) u = Inr u'" "st \<noteq> State_ACTIVE" "\<not> clock u"
      "prevValue u = Some (nextIndex u)"
      "\<bar>x\<bar> \<le> swipeDistanceThreshold u" "\<bar>v\<bar> \<le> swipeVelocityThreshold"
  proof -
    have "next_index (u\<lparr>gestureX := x, velocityX := v\<rparr>) = Some (index u)"
      using that(5,6) by (simp add: next_index_def is_swipe_def swipeDistanceThreshold_def)
    with release_resolves_from_index [OF that(1-4)] show ?thesis by simp
  qed
  then show ?thesis
    by (auto simp: next_index_def is_swipe_def swipeDistanceThreshold_def
        swipeVelocityThreshold_def)
qed

theorem snap_back_witness:
  "\<not> swipeDistanceThreshold short_drag \<le> \<bar>gestureX short_drag\<bar>
   \<and> \<not> swipeVelocityThreshold \<le> \<bar>velocityX short_drag\<bar>
   \<and> layoutWidth short_drag = 350 \<and> velocityX short_drag = 0 \<and> gestureX short_drag = - 199
   \<and> swipeDistanceThreshold short_drag = 200
   \<and> next_index short_drag = Some (index short_drag)
   \<and> step linear_spring (Gesture 2 (- 199) 0 State_END) short_drag_active = Inr snapped_back
   \<and> State_END \<noteq> State_ACTIVE \<and> \<not> clock short_drag_active
   \<and> prevValue short_drag_active = Some (nextIndex short_drag_active)
   \<and> \<bar>- 199\<bar> \<le> swipeDistanceThreshold short_drag_active
   \<and> \<bar>0\<bar> \<le> swipeVelocityThreshold
   \<and> index short_drag_active = 0 \<and> index snapped_back = 0"
proof -
  have a: "\<not> swipeDistanceThreshold short_drag \<le> \<bar>gestureX short_drag\<bar>"
    "\<not> swipeVelocityThreshold \<le> \<bar>velocityX short_drag\<bar>"
    "layoutWidth short_drag = 350" "velocityX short_drag = 0" "gestureX short_drag = - 199"
    by (simp_all add: short_drag_def init_def example_props_def swipeDistanceThreshold_def
        swipeVelocityThreshold_def)
  have b: "step linear_spring (Gesture 2 (- 199) 0 State_END) short_drag_active = Inr snapped_back"
    "State_END \<noteq> State_ACTIVE" "\<not> clock short_drag_active"
    "prevValue short_drag_active = Some (nextIndex short_drag_active)"
    "\<bar>- 199\<bar> \<le> swipeDistanceThreshold short_drag_active"
    "\<bar>0\<bar> \<le> swipeVelocityThreshold"
    "index short_drag_active = 0"
    by code_simp+
  from snap_back [of short_drag linear_spring 2 "- 199" 0 State_END short_drag_active snapped_back]
  have "next_index short_drag = Some (index short_drag)"
    "swipeDistanceThreshold short_drag = 200"
    "index snapped_back = index short_drag_active"
    using a b by blast+
  then show ?thesis using a b by simp
qed

text \<open>
  C2, as the claim states it, fails where the absolute translation equals the threshold:
  the graph compares with \<open>greaterThan\<close>, so at a width of 350 a release at 200 with
  velocity -1300 takes its direction from the velocity, not from the distance, and goes
  from index 1 to index 2.
\<close>

theorem distance_at_threshold_counterexample:
  "swipeDistanceThreshold boundary_release \<le> \<bar>gestureX boundary_release\<bar>
   \<and> swipeVelocityThreshold \<le> \<bar>velocityX boundary_release\<bar>
   \<and> direction boundary_release \<noteq> Some (sgn (gestureX boundary_release))
   \<and> direction boundary_release = Some (sgn (velocityX boundary_release))
   \<and> index boundary_release = 1
   \<and> next_index boundary_release = Some 2"
  by (simp add: boundary_release_def init_def example_props_def three_routes_def
      swipeDistanceThreshold_def swipeVelocityThreshold_def direction_def divide_js_def
      next_index_def is_swipe_def round_js_numerals)

text \<open>
  C2, amended. On a release that counts as a swipe the direction is the sign of the
  translation when its absolute value exceeds the distance threshold, and the sign of the
  velocity otherwise. A release at -50, under the distance threshold, with velocity
  -1300 has direction -1: the next index is the index plus one, clamped, and it is
  exactly the index plus one while a route is left.
\<close>

theorem direction_resolution:
  assumes "is_swipe s" and "0 \<le> layoutWidth s"
  shows "direction s =
           Some (if \<bar>gestureX s\<bar> > swipeDistanceThreshold s
                 then sgn (gestureX s) else sgn (velocityX s))
         \<and> (gestureX s = - 50 \<and> velocityX s = - 1300 \<and> 50 \<le> swipeDistanceThreshold s \<longrightarrow>
              direction s = Some (- 1)
              \<and> next_index s =
                  Some (of_int (round_js (min (max 0 (index s + 1)) (of_nat (routesLength s) - 1))))
              \<and> (\<forall>k. index s = of_nat k \<and> k + 1 < routesLength s \<longrightarrow>
                    next_index s = Some (of_nat k + 1)))"
proof -
  have d: "direction s =
           Some (if \<bar>gestureX s\<bar> > swipeDistanceThreshold s
                 then sgn (gestureX s) else sgn (velocityX s))"
    using assms by (rule direction_is_swipe)
  have "next_index s = Some (of_nat k + 1)"
    if "gestureX s = - 50" "velocityX s = - 1300" "50 \<le> swipeDistanceThreshold s"
      "index s = of_nat k" "k + 1 < routesLength s" for k
  proof -
    have "min (max 0 (rat_of_nat k + 1)) (rat_of_nat (routesLength s) - 1) = of_nat k + 1"
      using that(5) by (simp add: min_def max_def)
    then show ?thesis
      using that d assms(1) by (simp add: next_index_def round_js_of_nat_plus1)
  qed
  then show ?thesis
    using d assms(1) by (auto simp: next_index_def)
qed

theorem direction_resolution_witness:
  "is_swipe fling \<and> 0 \<le> layoutWidth fling \<and> gestureX fling = - 50 \<and> velocityX fling = - 1300
   \<and> 50 \<le> swipeDistanceThreshold fling \<and> index fling = of_nat 0 \<and> 0 + 1 < routesLength fling
   \<and> direction fling = Some (- 1) \<and> next_index fling = Some 1"
proof -
  have h: "is_swipe fling" "0 \<le> layoutWidth fling"
    by (simp_all add: fling_def init_def example_props_def is_swipe_def
        swipeDistanceThreshold_def swipeVelocityThreshold_def)
  have f: "gestureX fling = - 50" "velocityX fling = - 1300" "50 \<le> swipeDistanceThreshold fling"
    "index fling = of_nat 0" "0 + 1 < routesLength fling"
    by (simp_all add: fling_def init_def example_props_def three_routes_def
        swipeDistanceThreshold_def)
  from direction_resolution [OF h] f have "direction fling = Some (- 1)"
    and "next_index fling = Some (of_nat 0 + 1)"
    by blast+
  with h f show ?thesis by simp
qed

text \<open>
  C3. On a swipe the next index is the rounded value of index minus direction, clamped
  into the routes (the graph clamps first and rounds then, which is the same since the
  bounds are integers). So it is an index of a route; at the last index a swipe forward
  stays at the last index; and from index 0 with three routes a release at -201 under a
  width of 350 gives index 1.
\<close>

theorem next_index_clamped:
  assumes "is_swipe s" and "direction s = Some d"
  shows "next_index s =
           Some (of_int (min (max 0 (round_js (index s - d))) (int (routesLength s) - 1)))
         \<and> (1 \<le> routesLength s \<longrightarrow>
              (\<exists>i. next_index s = Some (of_int i) \<and> 0 \<le> i \<and> i \<le> int (routesLength s) - 1))
         \<and> (1 \<le> routesLength s \<and> index s = of_nat (routesLength s) - 1 \<and> d = - 1 \<longrightarrow>
              next_index s = Some (index s))
         \<and> (index s = 0 \<and> routesLength s = 3 \<and> layoutWidth s = 350 \<and> gestureX s = - 201 \<longrightarrow>
              next_index s = Some 1)"
proof -
  have n: "next_index s =
           Some (of_int (min (max 0 (round_js (index s - d))) (int (routesLength s) - 1)))"
    using assms by (simp add: next_index_def round_js_clamp)
  have last: "next_index s = Some (index s)"
    if "1 \<le> routesLength s" "index s = of_nat (routesLength s) - 1" "d = - 1"
  proof -
    have "index s - d = of_int (int (routesLength s))"
      using that by simp
    then have "round_js (index s - d) = int (routesLength s)"
      by (simp only: round_js_of_int)
    then show ?thesis using n that by (simp add: min_def max_def)
  qed
  have first: "next_index s = Some 1"
    if "index s = 0" "routesLength s = 3" "layoutWidth s = 350" "gestureX s = - 201"
  proof -
    have "d = - 1"
      using assms(2) that by (simp add: direction_def divide_js_def swipeDistanceThreshold_def)
    then have "index s - d = of_int 1" using that by simp
    then have "round_js (index s - d) = 1" by (simp only: round_js_of_int)
    then show ?thesis using n that by simp
  qed
  show ?thesis using n last first by auto
qed

theorem next_index_clamped_witness:
  "is_swipe long_drag_at_end \<and> direction long_drag_at_end = Some (- 1)
   \<and> 1 \<le> routesLength long_drag_at_end
   \<and> index long_drag_at_end = of_nat (routesLength long_drag_at_end) - 1
   \<and> next_index long_drag_at_end = Some 2
   \<and> is_swipe long_drag \<and> direction long_drag = Some (- 1)
   \<and> index long_drag = 0 \<and> routesLength long_drag = 3 \<and> layoutWidth long_drag = 350
   \<and> gestureX long_drag = - 201
   \<and> next_index long_drag = Some 1"
proof -
  have a: "is_swipe long_drag_at_end" "direction long_drag_at_end = Some (- 1)"
    "1 \<le> routesLength long_drag_at_end"
    "index long_drag_at_end = of_nat (routesLength long_drag_at_end) - 1"
    "index long_drag_at_end = 2"
    by (simp_all add: long_drag_at_end_def init_def example_props_def three_routes_def
        is_swipe_def direction_def divide_js_def swipeDistanceThreshold_def)
  have b: "is_swipe long_drag" "direction long_drag = Some (- 1)"
    "index long_drag = 0" "routesLength long_drag = 3" "layoutWidth long_drag = 350"
    "gestureX long_drag = - 201"
    by (simp_all add: long_drag_def init_def example_props_def three_routes_def
        is_swipe_def direction_def divide_js_def swipeDistanceThreshold_def)
  from next_index_clamped [OF a(1,2)] a(3,4) have "next_index long_drag_at_end = Some (index long_drag_at_end)"
    by blast
  moreover from next_index_clamped [OF b(1,2)] b(3-6) have "next_index long_drag = Some 1"
    by blast
  ultimately show ?thesis using a b by simp
qed

text \<open>
  C4. The claim is that one drag with its settling calls \<open>jumpTo\<close> exactly once, and
  that nothing is committed again when the host supplies the committed index. The code
  calls \<open>jumpTo\<close> whenever the spring has finished, without the check that the comment
  in the callback names. After a swipe from the first page to the second has settled and
  committed once, the host supplies index 1: the evaluation starts the clock again, the
  spring is at rest and has finished, and \<open>jumpTo\<close> is called a second time with the
  same key. And when the recogniser reports the touch before the drag, that evaluation
  already commits the current page, so the one drag makes two calls.
\<close>

theorem second_commit_after_resupply:
  "final jumpTo_calls (run linear_spring swipe_events (init example_props)) = Some [''second'']
   \<and> final clock (run linear_spring swipe_events (init example_props)) = Some False
   \<and> final jumpTo_calls
        (run linear_spring (swipe_events @ [Update 7 (with_index 1 example_props)])
           (init example_props)) = Some [''second'', ''second'']
   \<and> final jumpTo_calls
        (run linear_spring (Gesture 0 0 0 State_BEGAN # swipe_events) (init example_props))
       = Some [''first'', ''second'']"
  by code_simp

text \<open>
  C5, as the claim states it, fails: during a drag on the first page the host supplies
  index 2, and the next evaluation sets the index of the pager to 2 while the drag goes
  on. The release at -201 then settles on index 2, where the same drag without the
  update settles on index 1.
\<close>

theorem drag_overridden_counterexample:
  "final isSwiping (run linear_spring [Gesture 1 (- 100) (- 300) State_ACTIVE] (init example_props))
     = Some True
   \<and> final index (run linear_spring [Gesture 1 (- 100) (- 300) State_ACTIVE] (init example_props))
     = Some 0
   \<and> final isSwiping
       (run linear_spring
          [Gesture 1 (- 100) (- 300) State_ACTIVE, Update 2 (with_index 2 example_props)]
          (init example_props)) = Some True
   \<and> final index
       (run linear_spring
          [Gesture 1 (- 100) (- 300) State_ACTIVE, Update 2 (with_index 2 example_props)]
          (init example_props)) = Some 2
   \<and> final index
       (run linear_spring
          [Gesture 1 (- 100) (- 300) State_ACTIVE, Update 2 (with_index 2 example_props),
           Gesture 3 (- 201) 0 State_END, Tick 4, Tick 5, Tick 6, Tick 7, Tick 8, Tick 9]
          (init example_props)) = Some 2
   \<and> final clock
       (run linear_spring
          [Gesture 1 (- 100) (- 300) State_ACTIVE, Update 2 (with_index 2 example_props),
           Gesture 3 (- 201) 0 State_END, Tick 4, Tick 5, Tick 6, Tick 7, Tick 8, Tick 9]
          (init example_props)) = Some False
   \<and> final index
       (run linear_spring
          [Gesture 1 (- 100) (- 300) State_ACTIVE,
           Gesture 3 (- 201) 0 State_END, Tick 4, Tick 5, Tick 6, Tick 7, Tick 8, Tick 9]
          (init example_props)) = Some 1"
  by code_simp

text \<open>
  C5, amended. A change of the index by the host is not held back by a drag in flight:
  \<open>componentDidUpdate\<close> clears \<open>isSwipeGesture\<close> and stores the new index, and the
  evaluation that follows sets the index of the pager to it at once. The drag goes on
  (\<open>isSwiping\<close> stays set and the position is the offset plus the translation), and the
  release resolves the next index from the index the host supplied.
\<close>

theorem external_change_overrides_drag:
  assumes "gestureState s = State_ACTIVE" and "isSwiping s"
    and "prevValue s = Some (nextIndex s)"
    and "nextIndex s = nav_index (navigationState (props s))"
    and "nav_index (navigationState p) \<noteq> nav_index (navigationState (props s))"
  shows "\<exists>s'. step sp (Update now p) s = Inr s'
           \<and> index s' = nav_index (navigationState p)
           \<and> \<not> isSwipeGesture s' \<and> isSwiping s' \<and> gestureState s' = State_ACTIVE
           \<and> position s' = offsetX s + gestureX s
           \<and> (\<forall>t x v st s''. st \<noteq> State_ACTIVE \<and> step sp (Gesture t x v st) s' = Inr s'' \<longrightarrow>
                 next_index (s'\<lparr>gestureX := x, velocityX := v\<rparr>) = Some (index s''))"
proof -
  from external_change_mid_drag [OF assms, of sp now] obtain s' where s':
    "step sp (Update now p) s = Inr s'" "index s' = nav_index (navigationState p)"
    "\<not> isSwipeGesture s'" "isSwiping s'" "gestureState s' = State_ACTIVE"
    "position s' = offsetX s + gestureX s" "\<not> clock s'" "prevValue s' = Some (nextIndex s')"
    by blast
  have "next_index (s'\<lparr>gestureX := x, velocityX := v\<rparr>) = Some (index s'')"
    if "st \<noteq> State_ACTIVE" "step sp (Gesture t x v st) s' = Inr s''" for t x v st s''
    using release_resolves_from_index [OF that(2,1) s'(7,8)] .
  with s' show ?thesis by blast
qed

theorem external_change_overrides_drag_witness:
  "gestureState mid_drag = State_ACTIVE \<and> isSwiping mid_drag \<and> isSwipeGesture mid_drag
   \<and> index mid_drag = 0
   \<and> prevValue mid_drag = Some (nextIndex mid_drag)
   \<and> nextIndex mid_drag = nav_index (navigationState (props mid_drag))
   \<and> nav_index (navigationState (with_index 2 example_props))
       \<noteq> nav_index (navigationState (props mid_drag))
   \<and> step linear_spring (Update 2 (with_index 2 example_props)) mid_drag = Inr overridden
   \<and> index overridden = 2 \<and> \<not> isSwipeGesture overridden \<and> isSwiping overridden
   \<and> position overridden = - 100
   \<and> State_END \<noteq> State_ACTIVE
   \<and> step linear_spring (Gesture 3 (- 201) 0 State_END) overridden = Inr released
   \<and> next_index (overridden\<lparr>gestureX := - 201, velocityX := 0\<rparr>) = Some (index released)
   \<and> index released = 2"
proof -
  have h: "gestureState mid_drag = State_ACTIVE" "isSwiping mid_drag"
    "prevValue mid_drag = Some (nextIndex mid_drag)"
    "nextIndex mid_drag = nav_index (navigationState (props mid_drag))"
    "nav_index (navigationState (with_index 2 example_props))
       \<noteq> nav_index (navigationState (props mid_drag))"
    by code_simp+
  have e: "step linear_spring (Update 2 (with_index 2 example_props)) mid_drag = Inr overridden"
    "State_END \<noteq> State_ACTIVE"
    "step linear_spring (Gesture 3 (- 201) 0 State_END) overridden = Inr released"
    "isSwipeGesture mid_drag" "index mid_drag = 0" "position overridden = - 100"
    "index released = 2"
    by code_simp+
  from external_change_overrides_drag [OF h, of linear_spring 2] e(1)
  have "index overridden = nav_index (navigationState (with_index 2 example_props))"
    "\<not> isSwipeGesture overridden" "isSwiping overridden"
    "\<forall>t x v st s''. st \<noteq> State_ACTIVE \<and> step linear_spring (Gesture t x v st) overridden = Inr s'' \<longrightarrow>
                 next_index (overridden\<lparr>gestureX := x, velocityX := v\<rparr>) = Some (index s'')"
    by auto
  moreover from this(4) e(2,3)
  have "next_index (overridden\<lparr>gestureX := - 201, velocityX := 0\<rparr>) = Some (index released)"
    by blast
  ultimately show ?thesis using h e by (simp add: with_index_def)
qed

text \<open>
  C6, as the claim states it, fails twice. The pager rests on the first page and the host
  supplies index 2: the evaluation sets the index to 2, and it also sets the target of
  the spring to -700 and starts the clock; the position is -100 after this evaluation and
  -300 two frames later, on its way to -700. While that spring is in flight, with no
  gesture at all, the host supplies index 1: the spring has written its velocity, above
  1200, into \<open>velocityX\<close>, the index node takes it for a swipe, and the index of the
  pager is 2 and not 1 after the evaluation.
\<close>

theorem spring_after_external_change_counterexample:
  "final position (run linear_spring [Update 0 example_props] (init example_props)) = Some 0
   \<and> final clock (run linear_spring [Update 0 example_props] (init example_props)) = Some False
   \<and> final index
       (run linear_spring [Update 0 example_props, Update 1 (with_index 2 example_props)]
          (init example_props)) = Some 2
   \<and> final config_toValue
       (run linear_spring [Update 0 example_props, Update 1 (with_index 2 example_props)]
          (init example_props)) = Some (- 700)
   \<and> final clock
       (run linear_spring [Update 0 example_props, Update 1 (with_index 2 example_props)]
          (init example_props)) = Some True
   \<and> final position
       (run linear_spring [Update 0 example_props, Update 1 (with_index 2 example_props)]
          (init example_props)) = Some (- 100)
   \<and> final position
       (run linear_spring
          [Update 0 example_props, Update 1 (with_index 2 example_props), Tick 2, Tick 3]
          (init example_props)) = Some (- 300)
   \<and> final gestureState
       (run linear_spring [Update 0 example_props, Update 1 (with_index 2 example_props)]
          (init example_props)) = Some (- 1)
   \<and> final is_swipe
       (run linear_spring [Update 0 example_props, Update 1 (with_index 2 example_props)]
          (init example_props)) = Some True
   \<and> final index
       (run linear_spring
          [Update 0 example_props, Update 1 (with_index 2 example_props),
           Update 2 (with_index 1 example_props)]
          (init example_props)) = Some 2
   \<and> final config_toValue
       (run linear_spring
          [Update 0 example_props, Update 1 (with_index 2 example_props),
           Update 2 (with_index 1 example_props)]
          (init example_props)) = Some (- 700)"
  by code_simp

text \<open>
  C6, amended. When the host changes the index while no gesture is active and neither
  the stored translation nor the stored velocity, which a spring in flight writes too,
  exceeds its threshold, the evaluation sets the index of the pager to the new index at
  once and starts the spring afresh (time 0, not finished) from the current position
  towards minus the new index times the layout width: the position after the evaluation
  is the one the spring returns, and the clock runs unless the spring has finished at
  once.
\<close>

theorem external_change_starts_spring:
  assumes "step sp (Update now (with_index i (props s))) s = Inr s'"
    and "gestureState s \<noteq> State_ACTIVE"
    and "prevValue s = Some (nextIndex s)"
    and "nextIndex s = nav_index (navigationState (props s))"
    and "i \<noteq> nav_index (navigationState (props s))" and "i \<noteq> index s"
    and "\<not> is_swipe s"
  shows "index s' = i \<and> config_toValue s' = i * layoutWidth s * (- 1)
         \<and> position s' =
             sp_position (sp now (i * layoutWidth s * (- 1))
               \<lparr>sp_position = position s, sp_velocity = velocityX s,
                sp_time = 0, sp_finished = False\<rparr>)
         \<and> clock s' =
             (\<not> sp_finished (sp now (i * layoutWidth s * (- 1))
               \<lparr>sp_position = position s, sp_velocity = velocityX s,
                sp_time = 0, sp_finished = False\<rparr>))"
  using assms by (rule external_change_idle)

theorem external_change_starts_spring_witness:
  "step linear_spring (Update 1 (with_index 2 (props mounted))) mounted = Inr animating
   \<and> gestureState mounted \<noteq> State_ACTIVE
   \<and> prevValue mounted = Some (nextIndex mounted)
   \<and> nextIndex mounted = nav_index (navigationState (props mounted))
   \<and> 2 \<noteq> nav_index (navigationState (props mounted)) \<and> 2 \<noteq> index mounted
   \<and> \<not> is_swipe mounted \<and> \<not> clock mounted \<and> position mounted = 0
   \<and> layoutWidth mounted = 350
   \<and> index animating = 2 \<and> config_toValue animating = - 700
   \<and> position animating = - 100 \<and> clock animating"
proof -
  have h: "step linear_spring (Update 1 (with_index 2 (props mounted))) mounted = Inr animating"
    "gestureState mounted \<noteq> State_ACTIVE"
    "prevValue mounted = Some (nextIndex mounted)"
    "nextIndex mounted = nav_index (navigationState (props mounted))"
    "2 \<noteq> nav_index (navigationState (props mounted))" "2 \<noteq> index mounted"
    "\<not> is_swipe mounted"
    by code_simp+
  have f: "\<not> clock mounted" "position mounted = 0" "layoutWidth mounted = 350"
    "velocityX mounted = 0"
    by code_simp+
  have l: "sp_position (linear_spring 1 (- 700)
               \<lparr>sp_position = 0, sp_velocity = 0, sp_time = 0, sp_finished = False\<rparr>) = - 100"
    "\<not> sp_finished (linear_spring 1 (- 700)
               \<lparr>sp_position = 0, sp_velocity = 0, sp_time = 0, sp_finished = False\<rparr>)"
    by code_simp+
  from external_change_starts_spring [OF h] show ?thesis
    using h f l by simp
qed




text \<open>
  C8. With a layout width that is not negative, neither division of the direction is
  evaluated with a zero denominator: the direction of a swipe is never \<open>None\<close>, and so
  the index node always has a value. A release with velocity 0 and a translation that
  does not exceed the threshold is no swipe, and no division is evaluated for it.
\<close>

theorem no_division_by_zero:
  assumes "0 \<le> layoutWidth s"
  shows "(is_swipe s \<longrightarrow> direction s \<noteq> None)
         \<and> next_index s \<noteq> None
         \<and> (velocityX s = 0 \<and> \<bar>gestureX s\<bar> \<le> swipeDistanceThreshold s \<longrightarrow>
              \<not> is_swipe s \<and> next_index s = Some (index s))"
proof -
  have "direction s \<noteq> None" if "is_swipe s"
    using direction_is_swipe [OF that assms] by simp
  then show ?thesis
    by (auto simp: next_index_def is_swipe_def swipeVelocityThreshold_def)
qed

theorem no_division_by_zero_witness:
  "0 \<le> layoutWidth short_drag \<and> velocityX short_drag = 0
   \<and> \<bar>gestureX short_drag\<bar> \<le> swipeDistanceThreshold short_drag
   \<and> \<not> is_swipe short_drag \<and> next_index short_drag = Some (index short_drag)
   \<and> 0 \<le> layoutWidth long_drag \<and> is_swipe long_drag \<and> direction long_drag \<noteq> None"
proof -
  have a: "0 \<le> layoutWidth short_drag" "velocityX short_drag = 0"
    "\<bar>gestureX short_drag\<bar> \<le> swipeDistanceThreshold short_drag"
    by (simp_all add: short_drag_def init_def example_props_def swipeDistanceThreshold_def)
  have b: "0 \<le> layoutWidth long_drag" "is_swipe long_drag"
    by (simp_all add: long_drag_def init_def example_props_def is_swipe_def
        swipeDistanceThreshold_def)
  show ?thesis
    using no_division_by_zero [OF a(1)] no_division_by_zero [OF b(1)] a b by simp
qed




text \<open>
  C10. Constructed with a layout width of 0, the pager seeds \<open>layoutWidth\<close> with 320,
  so the distance threshold is 320 / 1.75 and not 0, while the position is computed from
  the width supplied and is 0 for every index.
\<close>

theorem zero_width_seeding:
  assumes "width (layout p) = 0"
  shows "layoutWidth (init p) = 320
         \<and> swipeDistanceThreshold (init p) = 320 / 1.75
         \<and> swipeDistanceThreshold (init p) \<noteq> 0
         \<and> position (init p) = 0"
  using assms by (simp add: init_def swipeDistanceThreshold_def)

theorem zero_width_seeding_witness:
  "width (layout no_layout_props) = 0
   \<and> nav_index (navigationState no_layout_props) = 2
   \<and> layoutWidth (init no_layout_props) = 320
   \<and> swipeDistanceThreshold (init no_layout_props) = 320 / 1.75
   \<and> position (init no_layout_props) = 0"
proof -
  have h: "width (layout no_layout_props) = 0"
    by (simp add: no_layout_props_def)
  show ?thesis
    using zero_width_seeding [OF h] h by (simp add: no_layout_props_def)
qed

end
